theory Spec2Isabelle
  imports Main "HOL-Library.Word" "HOL-Library.AList"
begin

section \<open>The festival registration form (src/App.tsx, src/types.ts)\<close>

text \<open>
  The component \<open>App\<close> owns five pieces of React state (\<open>formData\<close>, \<open>errors\<close>,
  \<open>isSubmitting\<close>, \<open>isSuccess\<close>, \<open>aiMessage\<close>) and seven handlers. Each handler is
  embedded as a function from the state it was rendered with to the state after its
  setters have been applied. \<open>handleSubmit\<close> is asynchronous: it is split at its first
  \<open>await\<close> into the synchronous prefix and the continuation that runs when the awaited
  calls settle.
\<close>

subsection \<open>Strings\<close>

text \<open>
  A JavaScript string is a sequence of UTF-16 code units. ASCII literals of the source
  are written through \<open>ascii\<close>; the Persian messages are given by their code units.
\<close>

type_synonym jsstring = "16 word list"

definition ascii :: "string \<Rightarrow> jsstring" where
  "ascii s = map of_char s"

text \<open>
  \<open>String.prototype.trim\<close> strips the code points WhiteSpace and LineTerminator of
  ECMA-262 from both ends: TAB, LF, VT, FF, CR, SP, NBSP, the category Zs
  (U+1680, U+2000 to U+200A, U+202F, U+205F, U+3000), LS, PS and U+FEFF.
\<close>

definition isWhiteSpace :: "16 word \<Rightarrow> bool" where
  "isWhiteSpace c =
     (c = 0x0009 \<or> c = 0x000A \<or> c = 0x000B \<or> c = 0x000C \<or> c = 0x000D \<or> c = 0x0020 \<or>
      c = 0x00A0 \<or> c = 0x1680 \<or> (0x2000 \<le> c \<and> c \<le> 0x200A) \<or> c = 0x2028 \<or>
      c = 0x2029 \<or> c = 0x202F \<or> c = 0x205F \<or> c = 0x3000 \<or> c = 0xFEFF)"

definition trim :: "jsstring \<Rightarrow> jsstring" where
  "trim s = rev (dropWhile isWhiteSpace (rev (dropWhile isWhiteSpace s)))"

text \<open>Truthiness of a string: every string but the empty one.\<close>

definition truthy :: "jsstring \<Rightarrow> bool" where
  "truthy s = (s \<noteq> [])"

subsection \<open>The data model (src/types.ts)\<close>

text \<open>
  Of a \<open>File\<close> the component reads \<open>name\<close> and \<open>type\<close> only; \<open>type\<close> is the MIME
  type the browser declares.
\<close>

record File =
  name :: jsstring
  type :: jsstring

record RegistrationData =
  directorName :: jsstring
  playwrightName :: jsstring
  directorPhone :: jsstring
  playTitle :: jsstring
  scriptFile :: "File option"
  isDirectorPlaywright :: bool
  authorPermissionFile :: "File option"

text \<open>\<open>keyof RegistrationData\<close>, the keys of the error object.\<close>

datatype field =
  DirectorName | PlaywrightName | DirectorPhone | PlayTitle
  | ScriptFile | IsDirectorPlaywright | AuthorPermissionFile

text \<open>
  \<open>Partial<Record<keyof RegistrationData, string>>\<close>: an object whose own keys are kept
  in insertion order. A key can be present with the value \<open>undefined\<close> (\<open>None\<close>), which
  is what \<open>{ ...prev, [name]: undefined }\<close> leaves behind. \<open>AList.update\<close> is the spread
  followed by one property: an existing key keeps its place, a new one goes last.
\<close>

type_synonym error_map = "(field \<times> jsstring option) list"

definition get :: "error_map \<Rightarrow> field \<Rightarrow> jsstring option" where
  \<comment> \<open>the property read \<open>errors[k]\<close>: \<open>undefined\<close> for a missing key as for a stored \<open>undefined\<close>\<close>
  "get m k = (case map_of m k of None \<Rightarrow> None | Some v \<Rightarrow> v)"

definition keys :: "error_map \<Rightarrow> field list" where
  \<comment> \<open>\<open>Object.keys\<close>\<close>
  "keys m = map fst m"

record app_state =
  formData :: RegistrationData
  errors :: error_map
  isSubmitting :: bool
  isSuccess :: bool
  aiMessage :: jsstring

subsection \<open>Message literals\<close>

definition msg_script_type :: jsstring where
  "msg_script_type =
     [0x0644, 0x0637, 0x0641, 0x0627, 0x0020, 0x0641, 0x0642, 0x0637, 0x0020, 0x0641,
      0x0627, 0x06CC, 0x0644, 0x0020, 0x0050, 0x0044, 0x0046, 0x0020, 0x0628, 0x0627,
      0x0631, 0x06AF, 0x0630, 0x0627, 0x0631, 0x06CC, 0x0020, 0x06A9, 0x0646, 0x06CC,
      0x062F, 0x002E]"

definition msg_permission_type :: jsstring where
  "msg_permission_type =
     [0x0644, 0x0637, 0x0641, 0x0627, 0x0020, 0x0641, 0x0627, 0x06CC, 0x0644, 0x0020,
      0x0050, 0x0044, 0x0046, 0x0020, 0x06CC, 0x0627, 0x0020, 0x062A, 0x0635, 0x0648,
      0x06CC, 0x0631, 0x0020, 0x0028, 0x004A, 0x0050, 0x0047, 0x002F, 0x0050, 0x004E,
      0x0047, 0x0029, 0x0020, 0x0645, 0x0639, 0x062A, 0x0628, 0x0631, 0x0020, 0x0628,
      0x0627, 0x0631, 0x06AF, 0x0630, 0x0627, 0x0631, 0x06CC, 0x0020, 0x06A9, 0x0646,
      0x06CC, 0x062F, 0x002E]"

definition msg_directorName :: jsstring where
  "msg_directorName =
     [0x0646, 0x0627, 0x0645, 0x0020, 0x06A9, 0x0627, 0x0631, 0x06AF, 0x0631, 0x062F,
      0x0627, 0x0646, 0x0020, 0x0627, 0x0644, 0x0632, 0x0627, 0x0645, 0x06CC, 0x0020,
      0x0627, 0x0633, 0x062A, 0x002E]"

definition msg_playwrightName :: jsstring where
  "msg_playwrightName =
     [0x0646, 0x0627, 0x0645, 0x0020, 0x0646, 0x0648, 0x06CC, 0x0633, 0x0646, 0x062F,
      0x0647, 0x0020, 0x0627, 0x0644, 0x0632, 0x0627, 0x0645, 0x06CC, 0x0020, 0x0627,
      0x0633, 0x062A, 0x002E]"

definition msg_directorPhone :: jsstring where
  "msg_directorPhone =
     [0x0634, 0x0645, 0x0627, 0x0631, 0x0647, 0x0020, 0x0647, 0x0645, 0x0631, 0x0627,
      0x0647, 0x0020, 0x06A9, 0x0627, 0x0631, 0x06AF, 0x0631, 0x062F, 0x0627, 0x0646,
      0x0020, 0x0627, 0x0644, 0x0632, 0x0627, 0x0645, 0x06CC, 0x0020, 0x0627, 0x0633,
      0x062A, 0x002E]"

definition msg_playTitle :: jsstring where
  "msg_playTitle =
     [0x0646, 0x0627, 0x0645, 0x0020, 0x0627, 0x062B, 0x0631, 0x0020, 0x0627, 0x0644,
      0x0632, 0x0627, 0x0645, 0x06CC, 0x0020, 0x0627, 0x0633, 0x062A, 0x002E]"

definition msg_scriptFile :: jsstring where
  "msg_scriptFile =
     [0x0628, 0x0627, 0x0631, 0x06AF, 0x0630, 0x0627, 0x0631, 0x06CC, 0x0020, 0x0641,
      0x0627, 0x06CC, 0x0644, 0x0020, 0x0646, 0x0645, 0x0627, 0x06CC, 0x0634, 0x0646,
      0x0627, 0x0645, 0x0647, 0x0020, 0x0627, 0x0644, 0x0632, 0x0627, 0x0645, 0x06CC,
      0x0020, 0x0627, 0x0633, 0x062A, 0x002E]"

definition msg_authorPermissionFile :: jsstring where
  "msg_authorPermissionFile =
     [0x0686, 0x0648, 0x0646, 0x0020, 0x06A9, 0x0627, 0x0631, 0x06AF, 0x0631, 0x062F,
      0x0627, 0x0646, 0x0020, 0x0648, 0x0020, 0x0646, 0x0648, 0x06CC, 0x0633, 0x0646,
      0x062F, 0x0647, 0x0020, 0x06CC, 0x06A9, 0x06CC, 0x0020, 0x0646, 0x06CC, 0x0633,
      0x062A, 0x0646, 0x062F, 0x060C, 0x0020, 0x0628, 0x0627, 0x0631, 0x06AF, 0x0630,
      0x0627, 0x0631, 0x06CC, 0x0020, 0x0645, 0x062C, 0x0648, 0x0632, 0x0020, 0x0627,
      0x0644, 0x0632, 0x0627, 0x0645, 0x06CC, 0x0020, 0x0627, 0x0633, 0x062A, 0x002E]"

definition msg_alert :: jsstring where
  "msg_alert =
     [0x062E, 0x0637, 0x0627, 0x06CC, 0x06CC, 0x0020, 0x0631, 0x062E, 0x0020, 0x062F,
      0x0627, 0x062F, 0x002E, 0x0020, 0x0644, 0x0637, 0x0641, 0x0627, 0x0020, 0x0645,
      0x062C, 0x062F, 0x062F, 0x0627, 0x0020, 0x062A, 0x0644, 0x0627, 0x0634, 0x0020,
      0x06A9, 0x0646, 0x06CC, 0x062F, 0x002E]"

subsection \<open>Initial state and the synchronous handlers\<close>

definition defaults :: RegistrationData where
  "defaults =
     \<lparr> directorName = [], playwrightName = [], directorPhone = [], playTitle = [],
       scriptFile = None, isDirectorPlaywright = True, authorPermissionFile = None \<rparr>"

definition initial :: app_state where
  "initial =
     \<lparr> formData = defaults, errors = [], isSubmitting = False, isSuccess = False,
       aiMessage = [] \<rparr>"

text \<open>
  The four \<open>Input\<close> elements carry the names \<open>directorName\<close>, \<open>playwrightName\<close>,
  \<open>directorPhone\<close> and \<open>playTitle\<close>; these are the values \<open>e.target.name\<close> takes.
\<close>

datatype text_field = TDirectorName | TPlaywrightName | TDirectorPhone | TPlayTitle

fun key_of :: "text_field \<Rightarrow> field" where
  "key_of TDirectorName = DirectorName"
| "key_of TPlaywrightName = PlaywrightName"
| "key_of TDirectorPhone = DirectorPhone"
| "key_of TPlayTitle = PlayTitle"

fun set_text :: "text_field \<Rightarrow> jsstring \<Rightarrow> RegistrationData \<Rightarrow> RegistrationData" where
  "set_text TDirectorName v d = d\<lparr>directorName := v\<rparr>"
| "set_text TPlaywrightName v d = d\<lparr>playwrightName := v\<rparr>"
| "set_text TDirectorPhone v d = d\<lparr>directorPhone := v\<rparr>"
| "set_text TPlayTitle v d = d\<lparr>playTitle := v\<rparr>"

definition handleInputChange :: "text_field \<Rightarrow> jsstring \<Rightarrow> app_state \<Rightarrow> app_state" where
  "handleInputChange nm v s =
     (let s1 = s\<lparr>formData := set_text nm v (formData s)\<rparr>
      in if (case get (errors s) (key_of nm) of None \<Rightarrow> False | Some m \<Rightarrow> truthy m)
         then s1\<lparr>errors := AList.update (key_of nm) None (errors s1)\<rparr>
         else s1)"

definition handleRadioChange :: "bool \<Rightarrow> app_state \<Rightarrow> app_state" where
  "handleRadioChange isDirector s =
     (let prev = formData s;
          s1 = s\<lparr>formData := prev
                 \<lparr>isDirectorPlaywright := isDirector,
                  authorPermissionFile :=
                    (if isDirector then None else authorPermissionFile prev)\<rparr>\<rparr>
      in if isDirector
         then s1\<lparr>errors := AList.update AuthorPermissionFile None (errors s1)\<rparr>
         else s1)"

text \<open>
  The argument of the two file handlers is \<open>e.target.files?.[0] || null\<close>: the first
  selected file, or \<open>None\<close> when the selection is empty.
\<close>

definition handleScriptChange :: "File option \<Rightarrow> app_state \<Rightarrow> app_state" where
  "handleScriptChange fl s =
     (case fl of
        Some f \<Rightarrow>
          if type f \<noteq> ascii ''application/pdf''
          then s\<lparr>errors := AList.update ScriptFile (Some msg_script_type) (errors s)\<rparr>
          else s\<lparr>formData := (formData s)\<lparr>scriptFile := Some f\<rparr>,
                 errors := AList.update ScriptFile None (errors s)\<rparr>
      | None \<Rightarrow>
          s\<lparr>formData := (formData s)\<lparr>scriptFile := None\<rparr>,
            errors := AList.update ScriptFile None (errors s)\<rparr>)"

definition permission_types :: "jsstring list" where
  "permission_types =
     [ascii ''application/pdf'', ascii ''image/jpeg'', ascii ''image/png'', ascii ''image/jpg'']"

definition handlePermissionChange :: "File option \<Rightarrow> app_state \<Rightarrow> app_state" where
  "handlePermissionChange fl s =
     (case fl of
        Some f \<Rightarrow>
          if type f \<notin> set permission_types
          then s\<lparr>errors :=
                   AList.update AuthorPermissionFile (Some msg_permission_type) (errors s)\<rparr>
          else s\<lparr>formData := (formData s)\<lparr>authorPermissionFile := Some f\<rparr>,
                 errors := AList.update AuthorPermissionFile None (errors s)\<rparr>
      | None \<Rightarrow>
          s\<lparr>formData := (formData s)\<lparr>authorPermissionFile := None\<rparr>,
            errors := AList.update AuthorPermissionFile None (errors s)\<rparr>)"

definition resetForm :: "app_state \<Rightarrow> app_state" where
  "resetForm s =
     s\<lparr>formData := defaults, isSuccess := False, aiMessage := [], errors := []\<rparr>"

subsection \<open>Validation and submission (\<open>handleSubmit\<close>)\<close>

text \<open>
  The validation block of \<open>handleSubmit\<close>: \<open>newErrors\<close> starts empty and each of the six
  \<open>if\<close> statements, in the order of the source, may add one property.
\<close>

definition validate :: "RegistrationData \<Rightarrow> error_map" where
  "validate d =
     (let e0 = [];
          e1 = (if \<not> truthy (trim (directorName d))
                then AList.update DirectorName (Some msg_directorName) e0 else e0);
          e2 = (if \<not> truthy (trim (playwrightName d))
                then AList.update PlaywrightName (Some msg_playwrightName) e1 else e1);
          e3 = (if \<not> truthy (trim (directorPhone d))
                then AList.update DirectorPhone (Some msg_directorPhone) e2 else e2);
          e4 = (if \<not> truthy (trim (playTitle d))
                then AList.update PlayTitle (Some msg_playTitle) e3 else e3);
          e5 = (if scriptFile d = None
                then AList.update ScriptFile (Some msg_scriptFile) e4 else e4);
          e6 = (if \<not> isDirectorPlaywright d \<and> authorPermissionFile d = None
                then AList.update AuthorPermissionFile (Some msg_authorPermissionFile) e5
                else e5)
      in e6)"

text \<open>
  The synchronous prefix of \<open>handleSubmit\<close> either returns after \<open>setErrors(newErrors)\<close>,
  or raises \<open>isSubmitting\<close> and suspends at the first \<open>await\<close>, holding the two
  arguments of \<open>generateWelcomeMessage\<close> that its closure has captured.
\<close>

datatype submit_result =
  Returned app_state
  | Suspended app_state "jsstring \<times> jsstring"

definition handleSubmit :: "app_state \<Rightarrow> submit_result" where
  "handleSubmit s =
     (let newErrors = validate (formData s)
      in if length (keys newErrors) > 0
         then Returned (s\<lparr>errors := newErrors\<rparr>)
         else Suspended (s\<lparr>isSubmitting := True\<rparr>)
                (directorName (formData s), playTitle (formData s)))"

text \<open>
  \<open>generateWelcomeMessage\<close> (\<open>./services/geminiService\<close>) is an external collaborator:
  how the \<open>try\<close> block settles is a parameter. The timer promise never rejects, so
  \<open>Rejected\<close> is a rejection of the generator. The continuation runs the rest of the
  \<open>try\<close> block or the \<open>catch\<close> block, then \<open>finally\<close>.
\<close>

datatype settled = Fulfilled jsstring | Rejected

datatype effect = ConsoleError jsstring | Alert jsstring

definition handleSubmit_resume :: "settled \<Rightarrow> app_state \<Rightarrow> app_state \<times> effect list" where
  "handleSubmit_resume r s =
     (case r of
        Fulfilled message \<Rightarrow>
          (s\<lparr>aiMessage := message, isSuccess := True, isSubmitting := False\<rparr>, [])
      | Rejected \<Rightarrow>
          (s\<lparr>isSubmitting := False\<rparr>,
           [ConsoleError (ascii ''Submission failed''), Alert msg_alert]))"

subsection \<open>The page as a transition system\<close>

text \<open>
  What the render function offers decides which events can occur: the form (inputs,
  radio buttons, script upload, submit button) is rendered while \<open>isSuccess\<close> is false,
  the permission upload only while moreover \<open>isDirectorPlaywright\<close> is false, the
  submit button carries \<open>disabled={isSubmitting}\<close>, and the success view has the one
  button calling \<open>resetForm\<close>. Events are handled one at a time, each on the state the
  previous one left. A suspended \<open>handleSubmit\<close> may resume at any later moment.
\<close>

definition formShown :: "app_state \<Rightarrow> bool" where
  "formShown s = (\<not> isSuccess s)"

definition permissionShown :: "app_state \<Rightarrow> bool" where
  "permissionShown s = (\<not> isSuccess s \<and> \<not> isDirectorPlaywright (formData s))"

definition submitDisabled :: "app_state \<Rightarrow> bool" where
  "submitDisabled s = isSubmitting s"

record page =
  app :: app_state
  inFlight :: "(jsstring \<times> jsstring) list"
  effects :: "effect list"

definition start :: page where
  "start = \<lparr> app = initial, inFlight = [], effects = [] \<rparr>"

datatype event =
  InputChange text_field jsstring
  | RadioChange bool
  | ScriptChange "File option"
  | PermissionChange "File option"
  | Submit
  | Settle nat settled
  | Reset

fun step :: "event \<Rightarrow> page \<Rightarrow> page option" where
  "step (InputChange nm v) p =
     (if formShown (app p) then Some (p\<lparr>app := handleInputChange nm v (app p)\<rparr>) else None)"
| "step (RadioChange b) p =
     (if formShown (app p) then Some (p\<lparr>app := handleRadioChange b (app p)\<rparr>) else None)"
| "step (ScriptChange fl) p =
     (if formShown (app p) then Some (p\<lparr>app := handleScriptChange fl (app p)\<rparr>) else None)"
| "step (PermissionChange fl) p =
     (if permissionShown (app p)
      then Some (p\<lparr>app := handlePermissionChange fl (app p)\<rparr>) else None)"
| "step Submit p =
     (if formShown (app p) \<and> \<not> submitDisabled (app p)
      then (case handleSubmit (app p) of
              Returned s' \<Rightarrow> Some (p\<lparr>app := s'\<rparr>)
            | Suspended s' args \<Rightarrow> Some (p\<lparr>app := s', inFlight := inFlight p @ [args]\<rparr>))
      else None)"
| "step (Settle i r) p =
     (if i < length (inFlight p)
      then (case handleSubmit_resume r (app p) of
              (s', fx) \<Rightarrow>
                Some (p\<lparr>app := s',
                        inFlight := take i (inFlight p) @ drop (Suc i) (inFlight p),
                        effects := effects p @ fx\<rparr>))
      else None)"
| "step Reset p =
     (if isSuccess (app p) then Some (p\<lparr>app := resetForm (app p)\<rparr>) else None)"

fun run :: "event list \<Rightarrow> page \<Rightarrow> page option" where
  "run [] p = Some p"
| "run (e # es) p = (case step e p of None \<Rightarrow> None | Some p' \<Rightarrow> run es p')"

text \<open>
  The events of the four input handlers. None of the inputs carries \<open>disabled\<close>, so
  these events stay possible while a submission is suspended.
\<close>

fun is_edit :: "event \<Rightarrow> bool" where
  "is_edit (InputChange nm v) = True"
| "is_edit (RadioChange b) = True"
| "is_edit (ScriptChange fl) = True"
| "is_edit (PermissionChange fl) = True"
| "is_edit Submit = False"
| "is_edit (Settle i r) = False"
| "is_edit Reset = False"

subsection \<open>Invariants of the transition system\<close>

text \<open>
  \<open>script_ok\<close>: a stored script file has the PDF type. \<open>single_flight\<close>: the number of
  suspended submissions is one while \<open>isSubmitting\<close> is raised and zero otherwise, and
  \<open>isSubmitting\<close> and \<open>isSuccess\<close> are never raised together.
\<close>

definition script_ok :: "app_state \<Rightarrow> bool" where
  "script_ok s =
     (case scriptFile (formData s) of
        None \<Rightarrow> True
      | Some f \<Rightarrow> type f = ascii ''application/pdf'')"

definition single_flight :: "page \<Rightarrow> bool" where
  "single_flight p =
     (length (inFlight p) = (if isSubmitting (app p) then 1 else 0)
      \<and> \<not> (isSubmitting (app p) \<and> isSuccess (app p)))"

subsection \<open>The permission guard in the words of the specification\<close>

text \<open>
  The specification describes the permission guard as membership of the type in
  \<open>{application/pdf, image/jpeg, image/png}\<close> after the alias \<open>image/jpg\<close> has been
  normalised to \<open>image/jpeg\<close>. These two definitions follow that wording; the guard of
  the source is the \<open>includes\<close> test in \<open>handlePermissionChange\<close>.
\<close>

definition normalize_type :: "jsstring \<Rightarrow> jsstring" where
  "normalize_type t = (if t = ascii ''image/jpg'' then ascii ''image/jpeg'' else t)"

definition permission_guard_spec :: "jsstring \<Rightarrow> bool" where
  "permission_guard_spec t =
     (normalize_type t \<in>
        set [ascii ''application/pdf'', ascii ''image/jpeg'', ascii ''image/png''])"

subsection \<open>Concrete inputs\<close>

definition sample_pdf :: File where
  "sample_pdf = \<lparr> name = ascii ''play.pdf'', type = ascii ''application/pdf'' \<rparr>"

definition sample_txt :: File where
  "sample_txt = \<lparr> name = ascii ''notes.txt'', type = ascii ''text/plain'' \<rparr>"

definition sample_jpg :: File where
  "sample_jpg = \<lparr> name = ascii ''scan.jpg'', type = ascii ''image/jpg'' \<rparr>"

definition sample_data :: RegistrationData where
  "sample_data =
     \<lparr> directorName = ascii ''B'', playwrightName = ascii ''A'', directorPhone = ascii ''0912'',
       playTitle = ascii ''Y'', scriptFile = Some sample_pdf, isDirectorPlaywright = True,
       authorPermissionFile = None \<rparr>"

definition sample_fill :: "event list" where
  "sample_fill =
     [InputChange TDirectorName (ascii ''B''), InputChange TPlaywrightName (ascii ''A''),
      InputChange TDirectorPhone (ascii ''0912''), InputChange TPlayTitle (ascii ''Y''),
      ScriptChange (Some sample_pdf)]"

definition sample_filled :: app_state where
  "sample_filled = initial\<lparr>formData := sample_data, errors := [(ScriptFile, None)]\<rparr>"

definition sample_blank :: RegistrationData where
  "sample_blank = sample_data\<lparr>directorName := [0x0020, 0x0009], scriptFile := None\<rparr>"

definition sample_permission :: app_state where
  "sample_permission =
     initial\<lparr>formData := sample_data\<lparr>isDirectorPlaywright := False,
                                        authorPermissionFile := Some sample_jpg\<rparr>,
             errors := [(AuthorPermissionFile, Some msg_permission_type)]\<rparr>"

definition sample_script_error :: app_state where
  "sample_script_error =
     initial\<lparr>formData := sample_data,
             errors := [(ScriptFile, Some msg_script_type)]\<rparr>"

definition sample_submitting :: page where
  "sample_submitting =
     start\<lparr>app := sample_filled\<lparr>isSubmitting := True\<rparr>,
           inFlight := [(ascii ''B'', ascii ''Y'')]\<rparr>"

definition sample_success :: page where
  "sample_success =
     start\<lparr>app := sample_filled\<lparr>aiMessage := ascii ''hi'', isSuccess := True\<rparr>\<rparr>"

definition sample_rejected :: page where
  "sample_rejected =
     start\<lparr>app := sample_filled,
           effects := [ConsoleError (ascii ''Submission failed''), Alert msg_alert]\<rparr>"

definition sample_edited :: page where
  "sample_edited =
     start\<lparr>app := sample_filled\<lparr>formData := sample_data\<lparr>directorName := ascii ''Z''\<rparr>,
                                 isSubmitting := True\<rparr>,
           inFlight := [(ascii ''B'', ascii ''Y'')]\<rparr>"

definition sample_edited_rejected :: page where
  "sample_edited_rejected =
     start\<lparr>app := sample_filled\<lparr>formData := sample_data\<lparr>directorName := ascii ''Z''\<rparr>\<rparr>,
           effects := [ConsoleError (ascii ''Submission failed''), Alert msg_alert]\<rparr>"

section \<open>Properties\<close>

subsection \<open>Auxiliary facts\<close>

lemma trim_Nil_iff: "(trim t = []) = list_all isWhiteSpace t"
proof (cases "dropWhile isWhiteSpace t = []")
  case True
  have "trim t = []"
    unfolding trim_def True by simp
  moreover have "list_all isWhiteSpace t"
    using True by (simp add: list_all_iff dropWhile_eq_Nil_conv)
  ultimately show ?thesis by simp
next
  case False
  then have "\<not> isWhiteSpace (hd (dropWhile isWhiteSpace t))"
    by (rule hd_dropWhile)
  moreover from False have "hd (dropWhile isWhiteSpace t) \<in> set (dropWhile isWhiteSpace t)"
    by simp
  ultimately have "trim t \<noteq> []"
    by (auto simp: trim_def dropWhile_eq_Nil_conv)
  moreover from False have "\<not> list_all isWhiteSpace t"
    by (simp add: list_all_iff dropWhile_eq_Nil_conv)
  ultimately show ?thesis by simp
qed

lemma get_update: "get (AList.update k v m) k' = (if k' = k then v else get m k')"
  by (simp add: get_def update_conv')

lemma set_text_scriptFile: "scriptFile (set_text nm v d) = scriptFile d"
  by (cases nm) simp_all

lemma step_script_ok:
  assumes "script_ok (app p)" and "step e p = Some p'"
  shows "script_ok (app p')"
proof (cases e)
  case (InputChange nm v)
  with assms show ?thesis
    by (auto simp: script_ok_def handleInputChange_def Let_def set_text_scriptFile split: if_splits)
next
  case (RadioChange b)
  with assms show ?thesis
    by (auto simp: script_ok_def handleRadioChange_def Let_def split: if_splits)
next
  case (ScriptChange fl)
  with assms show ?thesis
    by (auto simp: script_ok_def handleScriptChange_def split: if_splits option.splits)
next
  case (PermissionChange fl)
  with assms show ?thesis
    by (auto simp: script_ok_def handlePermissionChange_def split: if_splits option.splits)
next
  case Submit
  with assms show ?thesis
    by (auto simp: script_ok_def handleSubmit_def Let_def split: if_splits)
next
  case (Settle i r)
  with assms show ?thesis
    by (auto simp: script_ok_def handleSubmit_resume_def split: if_splits settled.splits)
next
  case Reset
  with assms show ?thesis
    by (auto simp: script_ok_def resetForm_def defaults_def split: if_splits)
qed

lemma run_script_ok: "script_ok (app p) \<Longrightarrow> run es p = Some q \<Longrightarrow> script_ok (app q)"
proof (induction es arbitrary: p)
  case Nil
  then show ?case by simp
next
  case (Cons e es)
  then show ?case
    by (auto split: option.splits dest: step_script_ok)
qed

lemma step_single_flight:
  assumes "single_flight p" and "step e p = Some p'"
  shows "single_flight p'"
proof (cases e)
  case (InputChange nm v)
  with assms show ?thesis
    by (auto simp: single_flight_def handleInputChange_def Let_def formShown_def split: if_splits)
next
  case (RadioChange b)
  with assms show ?thesis
    by (auto simp: single_flight_def handleRadioChange_def Let_def formShown_def split: if_splits)
next
  case (ScriptChange fl)
  with assms show ?thesis
    by (auto simp: single_flight_def handleScriptChange_def formShown_def split: if_splits option.splits)
next
  case (PermissionChange fl)
  with assms show ?thesis
    by (auto simp: single_flight_def handlePermissionChange_def permissionShown_def split: if_splits option.splits)
next
  case Submit
  with assms show ?thesis
    by (auto simp: single_flight_def handleSubmit_def Let_def formShown_def submitDisabled_def split: if_splits)
next
  case (Settle i r)
  with assms show ?thesis
    by (auto simp: single_flight_def handleSubmit_resume_def split: if_splits settled.splits)
next
  case Reset
  with assms show ?thesis
    by (auto simp: single_flight_def resetForm_def split: if_splits)
qed

lemma run_single_flight: "single_flight p \<Longrightarrow> run es p = Some q \<Longrightarrow> single_flight q"
proof (induction es arbitrary: p)
  case Nil
  then show ?case by simp
next
  case (Cons e es)
  then show ?case
    by (auto split: option.splits dest: step_single_flight)
qed

lemma start_ok: "script_ok (app start)" "single_flight start"
  by (simp_all add: script_ok_def single_flight_def start_def initial_def defaults_def)

lemmas sample_defs = sample_pdf_def sample_txt_def sample_jpg_def sample_data_def sample_fill_def
  sample_filled_def start_def initial_def defaults_def ascii_def
lemmas handler_defs = handleInputChange_def handleRadioChange_def handleScriptChange_def
  handlePermissionChange_def handleSubmit_def handleSubmit_resume_def resetForm_def validate_def
  formShown_def permissionShown_def submitDisabled_def get_def keys_def truthy_def trim_def isWhiteSpace_def
  Let_def

lemma run_sample_submitting: "run (sample_fill @ [Submit]) start = Some sample_submitting"
  by (simp add: sample_submitting_def sample_defs handler_defs)

lemma run_sample_success:
  "run (sample_fill @ [Submit, Settle 0 (Fulfilled (ascii ''hi''))]) start = Some sample_success"
  by (simp add: sample_success_def sample_defs handler_defs)

lemma run_single_flight_start: "run es start = Some p \<Longrightarrow> single_flight p"
  using start_ok(2) by (rule run_single_flight)

lemma reachable_in_flight:
  assumes "run es start = Some p"
  shows "length (inFlight p) \<le> 1" and "(inFlight p \<noteq> []) = isSubmitting (app p)"
    and "isSubmitting (app p) \<Longrightarrow> \<not> isSuccess (app p)"
  using run_single_flight_start [OF assms]
  by (auto simp: single_flight_def split: if_splits)

lemma settle_flags:
  assumes "single_flight p" and "step (Settle i r) p = Some p'"
  shows "\<not> isSubmitting (app p')" and "inFlight p' = []" and "\<not> isSuccess (app p)"
  using assms
  by (auto simp: single_flight_def handleSubmit_resume_def split: if_splits settled.splits)

lemma step_sample_rejected: "step (Settle 0 Rejected) sample_submitting = Some sample_rejected"
  by (simp add: sample_submitting_def sample_rejected_def sample_filled_def start_def
      initial_def handleSubmit_resume_def)

lemma step_sample_submit: "step Submit (start\<lparr>app := sample_filled\<rparr>) = Some sample_submitting"
  by (simp add: sample_submitting_def sample_defs handler_defs)

lemma formData_handleInputChange:
  "formData (handleInputChange nm v s) = set_text nm v (formData s)"
  by (simp add: handleInputChange_def Let_def)

lemma edit_step_formData:
  assumes "is_edit e" and "formData (app a) = formData (app b)"
    and "isSuccess (app a) = isSuccess (app b)" and "step e a = Some a'"
  shows "\<exists>b'. step e b = Some b' \<and> formData (app b') = formData (app a')
           \<and> isSuccess (app b') = isSuccess (app a')"
proof (cases e)
  case (InputChange nm v)
  with assms show ?thesis
    by (auto simp: formShown_def formData_handleInputChange handleInputChange_def Let_def
        split: if_splits)
next
  case (RadioChange b)
  with assms show ?thesis
    by (auto simp: formShown_def handleRadioChange_def Let_def split: if_splits)
next
  case (ScriptChange fl)
  with assms show ?thesis
    by (auto simp: formShown_def handleScriptChange_def split: if_splits option.splits)
next
  case (PermissionChange fl)
  with assms show ?thesis
    by (auto simp: permissionShown_def handlePermissionChange_def split: if_splits option.splits)
qed (use assms in simp_all)

lemma edits_run_formData:
  "list_all is_edit mid \<Longrightarrow> formData (app a) = formData (app b) \<Longrightarrow>
   isSuccess (app a) = isSuccess (app b) \<Longrightarrow> run mid a = Some a' \<Longrightarrow>
   map_option (\<lambda>x. formData (app x)) (run mid b) = Some (formData (app a'))"
proof (induction mid arbitrary: a b)
  case Nil
  then show ?case by simp
next
  case (Cons e mid)
  from Cons.prems(4) obtain a1 where a1: "step e a = Some a1" "run mid a1 = Some a'"
    by (auto split: option.splits)
  from Cons.prems(1) have e: "is_edit e" and m: "list_all is_edit mid"
    by simp_all
  from edit_step_formData [OF e Cons.prems(2) Cons.prems(3) a1(1)]
  obtain b1 where b1: "step e b = Some b1" "formData (app b1) = formData (app a1)"
    "isSuccess (app b1) = isSuccess (app a1)"
    by blast
  from Cons.IH [OF m b1(2) [symmetric] b1(3) [symmetric] a1(2)] b1(1)
  show ?case by simp
qed

lemma submit_keeps:
  "step Submit p = Some p1 \<Longrightarrow>
   formData (app p1) = formData (app p) \<and> isSuccess (app p1) = isSuccess (app p)"
  by (auto simp: handleSubmit_def Let_def split: if_splits)

lemma waiting_events:
  assumes "single_flight p" and "isSubmitting (app p)" and "step e p = Some p'"
  shows "is_edit e \<or> \<not> isSubmitting (app p')"
  using assms
  by (cases e)
     (auto simp: single_flight_def submitDisabled_def handleSubmit_resume_def
        split: if_splits settled.splits)

lemma step_sample_edit:
  "step (InputChange TDirectorName (ascii ''Z'')) sample_submitting = Some sample_edited"
  by (simp add: sample_submitting_def sample_edited_def sample_defs handler_defs)

lemma step_sample_edited_rejected:
  "step (Settle 0 Rejected) sample_edited = Some sample_edited_rejected"
  by (simp add: sample_edited_def sample_edited_rejected_def sample_filled_def start_def
      initial_def handleSubmit_resume_def)

lemma run_sample_edit_alone:
  "run [InputChange TDirectorName (ascii ''Z'')] (start\<lparr>app := sample_filled\<rparr>) =
     Some (start\<lparr>app := sample_filled\<lparr>formData := sample_data\<lparr>directorName := ascii ''Z''\<rparr>\<rparr>\<rparr>)"
  by (simp add: sample_defs handler_defs)

subsection \<open>The validator\<close>

text \<open>
  C1. For each of the four required text fields the validator stores that field's
  message exactly when the field trims to the empty string, which is the case exactly
  when every code unit of it is white space. The keys of the result are the violated
  rules, all six evaluated in source order, so errors accumulate. When the result is
  not empty \<open>handleSubmit\<close> only stores it and returns: \<open>isSubmitting\<close> is not raised and
  no submission is started.
\<close>

theorem required_text_fields_validated:
  "get (validate d) DirectorName =
     (if trim (directorName d) = [] then Some msg_directorName else None)
   \<and> get (validate d) PlaywrightName =
     (if trim (playwrightName d) = [] then Some msg_playwrightName else None)
   \<and> get (validate d) DirectorPhone =
     (if trim (directorPhone d) = [] then Some msg_directorPhone else None)
   \<and> get (validate d) PlayTitle =
     (if trim (playTitle d) = [] then Some msg_playTitle else None)
   \<and> (trim t = []) = list_all isWhiteSpace t
   \<and> keys (validate d) =
       (if trim (directorName d) = [] then [DirectorName] else []) @
       (if trim (playwrightName d) = [] then [PlaywrightName] else []) @
       (if trim (directorPhone d) = [] then [DirectorPhone] else []) @
       (if trim (playTitle d) = [] then [PlayTitle] else []) @
       (if scriptFile d = None then [ScriptFile] else []) @
       (if \<not> isDirectorPlaywright d \<and> authorPermissionFile d = None
        then [AuthorPermissionFile] else [])
   \<and> (validate (formData s) \<noteq> [] \<longrightarrow>
        handleSubmit s = Returned (s\<lparr>errors := validate (formData s)\<rparr>))
   \<and> (validate (formData (app p)) \<noteq> [] \<and> step Submit p = Some p' \<longrightarrow>
        p' = p\<lparr>app := (app p)\<lparr>errors := validate (formData (app p))\<rparr>\<rparr>
        \<and> \<not> isSubmitting (app p') \<and> inFlight p' = inFlight p)"
proof -
  have g: "get (validate d) DirectorName =
       (if trim (directorName d) = [] then Some msg_directorName else None)"
    "get (validate d) PlaywrightName =
       (if trim (playwrightName d) = [] then Some msg_playwrightName else None)"
    "get (validate d) DirectorPhone =
       (if trim (directorPhone d) = [] then Some msg_directorPhone else None)"
    "get (validate d) PlayTitle =
       (if trim (playTitle d) = [] then Some msg_playTitle else None)"
    by (simp_all add: validate_def Let_def get_def truthy_def)
  have k: "keys (validate d) =
       (if trim (directorName d) = [] then [DirectorName] else []) @
       (if trim (playwrightName d) = [] then [PlaywrightName] else []) @
       (if trim (directorPhone d) = [] then [DirectorPhone] else []) @
       (if trim (playTitle d) = [] then [PlayTitle] else []) @
       (if scriptFile d = None then [ScriptFile] else []) @
       (if \<not> isDirectorPlaywright d \<and> authorPermissionFile d = None
        then [AuthorPermissionFile] else [])"
    by (simp add: validate_def Let_def keys_def truthy_def)
  have a: "validate (formData s) \<noteq> [] \<longrightarrow>
        handleSubmit s = Returned (s\<lparr>errors := validate (formData s)\<rparr>)" for s
    by (simp add: handleSubmit_def Let_def keys_def)
  have b: "validate (formData (app p)) \<noteq> [] \<and> step Submit p = Some p' \<longrightarrow>
        p' = p\<lparr>app := (app p)\<lparr>errors := validate (formData (app p))\<rparr>\<rparr>
        \<and> \<not> isSubmitting (app p') \<and> inFlight p' = inFlight p"
    using a [of "app p"] by (auto simp: submitDisabled_def split: if_splits)
  from g k a b trim_Nil_iff [of t] show ?thesis by blast
qed

theorem required_text_fields_validated_witness:
  "get (validate sample_blank) DirectorName = Some msg_directorName
   \<and> get (validate sample_blank) PlayTitle = None
   \<and> keys (validate sample_blank) = [DirectorName, ScriptFile]
   \<and> handleSubmit (initial\<lparr>formData := sample_blank\<rparr>) =
       Returned (initial\<lparr>formData := sample_blank,
                  errors := [(DirectorName, Some msg_directorName),
                             (ScriptFile, Some msg_scriptFile)]\<rparr>)
   \<and> step Submit (start\<lparr>app := initial\<lparr>formData := sample_blank\<rparr>\<rparr>) =
       Some (start\<lparr>app := initial\<lparr>formData := sample_blank,
                  errors := [(DirectorName, Some msg_directorName),
                             (ScriptFile, Some msg_scriptFile)]\<rparr>\<rparr>)"
proof -
  have v: "validate sample_blank =
      [(DirectorName, Some msg_directorName), (ScriptFile, Some msg_scriptFile)]"
    by (simp add: sample_blank_def sample_defs validate_def truthy_def trim_def
        isWhiteSpace_def Let_def)
  have st: "step Submit (start\<lparr>app := initial\<lparr>formData := sample_blank\<rparr>\<rparr>) =
       Some (start\<lparr>app := initial\<lparr>formData := sample_blank,
                  errors := [(DirectorName, Some msg_directorName),
                             (ScriptFile, Some msg_scriptFile)]\<rparr>\<rparr>)"
    by (simp add: v handleSubmit_def keys_def formShown_def submitDisabled_def initial_def
        start_def Let_def)
  show ?thesis
    using required_text_fields_validated
      [of sample_blank "[0x0020, 0x0009]" "initial\<lparr>formData := sample_blank\<rparr>"
          "start\<lparr>app := initial\<lparr>formData := sample_blank\<rparr>\<rparr>"
          "start\<lparr>app := initial\<lparr>formData := sample_blank,
                  errors := [(DirectorName, Some msg_directorName),
                             (ScriptFile, Some msg_scriptFile)]\<rparr>\<rparr>"] v st
    by (simp add: keys_def get_def)
qed

text \<open>
  C2. With \<open>isDirectorPlaywright\<close> false and no permission file the validator flags
  \<open>authorPermissionFile\<close>; with \<open>isDirectorPlaywright\<close> true it never does, whatever
  the stored permission file is.
\<close>

theorem permission_file_conditionally_required:
  "(\<not> isDirectorPlaywright d \<and> authorPermissionFile d = None \<longrightarrow>
      get (validate d) AuthorPermissionFile = Some msg_authorPermissionFile
      \<and> truthy msg_authorPermissionFile
      \<and> AuthorPermissionFile \<in> set (keys (validate d)))
   \<and> (isDirectorPlaywright d \<longrightarrow>
      get (validate d) AuthorPermissionFile = None
      \<and> AuthorPermissionFile \<notin> set (keys (validate d)))"
  by (simp add: validate_def Let_def get_def keys_def truthy_def msg_authorPermissionFile_def)

theorem permission_file_conditionally_required_witness:
  "get (validate (sample_data\<lparr>isDirectorPlaywright := False\<rparr>)) AuthorPermissionFile =
     Some msg_authorPermissionFile
   \<and> get (validate (sample_data\<lparr>authorPermissionFile := Some sample_txt\<rparr>))
       AuthorPermissionFile = None
   \<and> get (validate sample_data) AuthorPermissionFile = None"
  using permission_file_conditionally_required [of "sample_data\<lparr>isDirectorPlaywright := False\<rparr>"]
    permission_file_conditionally_required [of "sample_data\<lparr>authorPermissionFile := Some sample_txt\<rparr>"]
    permission_file_conditionally_required [of sample_data]
  by (simp add: sample_data_def)

subsection \<open>The radio toggle\<close>

text \<open>
  C3. Toggling to true sets \<open>authorPermissionFile\<close> to null and makes its error read
  \<open>undefined\<close>, leaving every other field of the data, every other error and the
  rest of the state as they were. Toggling to false changes nothing but the flag, so
  a stored permission file stays.
\<close>

theorem radio_toggle_frame:
  "formData (handleRadioChange True s) =
     (formData s)\<lparr>isDirectorPlaywright := True, authorPermissionFile := None\<rparr>
   \<and> get (errors (handleRadioChange True s)) k =
     (if k = AuthorPermissionFile then None else get (errors s) k)
   \<and> handleRadioChange True s =
     s\<lparr>formData := formData (handleRadioChange True s),
       errors := errors (handleRadioChange True s)\<rparr>
   \<and> handleRadioChange False s = s\<lparr>formData := (formData s)\<lparr>isDirectorPlaywright := False\<rparr>\<rparr>
   \<and> authorPermissionFile (formData (handleRadioChange False s)) =
       authorPermissionFile (formData s)"
  by (simp add: handleRadioChange_def Let_def get_update)

theorem radio_toggle_frame_witness:
  "formData (handleRadioChange True sample_permission) = sample_data
   \<and> get (errors (handleRadioChange True sample_permission)) AuthorPermissionFile = None
   \<and> formData (handleRadioChange False sample_permission) = formData sample_permission"
  using radio_toggle_frame [of sample_permission AuthorPermissionFile]
  by (simp add: sample_permission_def sample_data_def)

subsection \<open>The file selection guards\<close>

text \<open>
  C4. Selecting a file for the script: when its type is not exactly
  \<open>application/pdf\<close> (\<open>text/plain\<close>, say) the form data, and with it \<open>scriptFile\<close>,
  stay as they were and the \<open>scriptFile\<close> error becomes the (non-empty) type message;
  when the type is \<open>application/pdf\<close> the file is stored and the \<open>scriptFile\<close> error
  reads \<open>undefined\<close>.
\<close>

theorem script_guard:
  "formData (handleScriptChange (Some f) s) =
     (if type f = ascii ''application/pdf'' then (formData s)\<lparr>scriptFile := Some f\<rparr>
      else formData s)
   \<and> get (errors (handleScriptChange (Some f) s)) ScriptFile =
     (if type f = ascii ''application/pdf'' then None else Some msg_script_type)
   \<and> truthy msg_script_type"
  by (simp add: handleScriptChange_def get_update truthy_def msg_script_type_def)

theorem script_guard_witness:
  "scriptFile (formData (handleScriptChange (Some sample_txt) sample_filled)) = Some sample_pdf
   \<and> get (errors (handleScriptChange (Some sample_txt) sample_filled)) ScriptFile =
       Some msg_script_type
   \<and> scriptFile (formData (handleScriptChange (Some sample_pdf) sample_script_error)) =
       Some sample_pdf
   \<and> get (errors (handleScriptChange (Some sample_pdf) sample_script_error)) ScriptFile = None"
  using script_guard [of sample_txt sample_filled] script_guard [of sample_pdf sample_script_error]
  by (simp add: sample_defs sample_script_error_def)

text \<open>
  C5. In every state reached from the initial one by events the page offers, a stored
  script file has type \<open>application/pdf\<close>. The property holds initially (no file) and
  \<open>handleScriptChange\<close> itself preserves it, for any selection: it is established when
  the file is selected.
\<close>

theorem scriptFile_always_pdf:
  "(run es start = Some q \<and> scriptFile (formData (app q)) = Some f \<longrightarrow>
      type f = ascii ''application/pdf'')
   \<and> (script_ok s \<longrightarrow> script_ok (handleScriptChange fl s))
   \<and> scriptFile (formData initial) = None"
proof -
  have "script_ok (app q)" if "run es start = Some q"
    using start_ok(1) that by (rule run_script_ok)
  then have a: "run es start = Some q \<and> scriptFile (formData (app q)) = Some f \<longrightarrow>
      type f = ascii ''application/pdf''"
    by (auto simp: script_ok_def)
  have b: "script_ok s \<longrightarrow> script_ok (handleScriptChange fl s)"
    by (auto simp: script_ok_def handleScriptChange_def split: option.splits)
  have c: "scriptFile (formData initial) = None"
    by (simp add: initial_def defaults_def)
  from a b c show ?thesis by blast
qed

theorem scriptFile_always_pdf_witness:
  "run (sample_fill @ [Submit]) start = Some sample_submitting
   \<and> scriptFile (formData (app sample_submitting)) = Some sample_pdf
   \<and> type sample_pdf = ascii ''application/pdf''
   \<and> script_ok sample_filled
   \<and> script_ok (handleScriptChange (Some sample_txt) sample_filled)"
proof -
  have f: "scriptFile (formData (app sample_submitting)) = Some sample_pdf"
    by (simp add: sample_submitting_def sample_filled_def sample_data_def)
  have o: "script_ok sample_filled"
    by (simp add: script_ok_def sample_filled_def sample_data_def sample_pdf_def)
  show ?thesis
    using scriptFile_always_pdf
      [of "sample_fill @ [Submit]" sample_submitting sample_pdf sample_filled "Some sample_txt"]
      run_sample_submitting f o
    by simp
qed

text \<open>
  C6. The \<open>includes\<close> test of \<open>handlePermissionChange\<close> accepts exactly the types
  that, with \<open>image/jpg\<close> normalised to \<open>image/jpeg\<close>, lie in
  \<open>{application/pdf, image/jpeg, image/png}\<close>; in particular \<open>image/jpg\<close> is accepted.
  A rejected file leaves the form data unchanged and sets the (non-empty) permission
  type message; an accepted file is stored and the error reads \<open>undefined\<close>.
\<close>

theorem permission_guard:
  "(t \<in> set permission_types) = permission_guard_spec t
   \<and> formData (handlePermissionChange (Some f) s) =
     (if permission_guard_spec (type f) then (formData s)\<lparr>authorPermissionFile := Some f\<rparr>
      else formData s)
   \<and> get (errors (handlePermissionChange (Some f) s)) AuthorPermissionFile =
     (if permission_guard_spec (type f) then None else Some msg_permission_type)
   \<and> truthy msg_permission_type
   \<and> permission_guard_spec (ascii ''image/jpg'')"
proof -
  have e: "(t \<in> set permission_types) = permission_guard_spec t" for t
    by (auto simp: permission_types_def permission_guard_spec_def normalize_type_def
        ascii_def)
  have j: "permission_guard_spec (ascii ''image/jpg'')"
    by (simp add: permission_guard_spec_def normalize_type_def)
  show ?thesis
    by (simp add: e [symmetric] j [unfolded e [symmetric]] handlePermissionChange_def get_update truthy_def
        msg_permission_type_def)
qed

theorem permission_guard_witness:
  "authorPermissionFile (formData (handlePermissionChange (Some sample_jpg) sample_filled)) =
     Some sample_jpg
   \<and> get (errors (handlePermissionChange (Some sample_jpg) sample_permission))
       AuthorPermissionFile = None
   \<and> authorPermissionFile (formData (handlePermissionChange (Some sample_txt) sample_permission)) =
     Some sample_jpg
   \<and> get (errors (handlePermissionChange (Some sample_txt) sample_filled)) AuthorPermissionFile =
       Some msg_permission_type"
proof -
  have a: "permission_guard_spec (type sample_jpg)"
    by (simp add: permission_guard_spec_def normalize_type_def sample_jpg_def)
  have b: "\<not> permission_guard_spec (type sample_txt)"
    by (simp add: permission_guard_spec_def normalize_type_def sample_txt_def
        ascii_def)
  show ?thesis
    using permission_guard [of "type sample_jpg" sample_jpg sample_filled]
      permission_guard [of "type sample_jpg" sample_jpg sample_permission]
      permission_guard [of "type sample_txt" sample_txt sample_permission]
      permission_guard [of "type sample_txt" sample_txt sample_filled] a b
    by (simp add: sample_permission_def)
qed

text \<open>
  C10. A change event with an empty selection passes both guards: the handler sets
  the stored file reference to null, whatever it was, and makes the field's error
  read \<open>undefined\<close>; other fields and other errors are untouched.
\<close>

theorem empty_selection_discards:
  "formData (handleScriptChange None s) = (formData s)\<lparr>scriptFile := None\<rparr>
   \<and> get (errors (handleScriptChange None s)) k =
       (if k = ScriptFile then None else get (errors s) k)
   \<and> formData (handlePermissionChange None s) = (formData s)\<lparr>authorPermissionFile := None\<rparr>
   \<and> get (errors (handlePermissionChange None s)) k =
       (if k = AuthorPermissionFile then None else get (errors s) k)"
  by (simp add: handleScriptChange_def handlePermissionChange_def get_update)

theorem empty_selection_discards_witness:
  "scriptFile (formData sample_script_error) = Some sample_pdf
   \<and> scriptFile (formData (handleScriptChange None sample_script_error)) = None
   \<and> get (errors (handleScriptChange None sample_script_error)) ScriptFile = None
   \<and> authorPermissionFile (formData sample_permission) = Some sample_jpg
   \<and> authorPermissionFile (formData (handlePermissionChange None sample_permission)) = None
   \<and> get (errors (handlePermissionChange None sample_permission)) AuthorPermissionFile = None"
  using empty_selection_discards [of sample_script_error ScriptFile]
    empty_selection_discards [of sample_permission AuthorPermissionFile]
  by (simp add: sample_script_error_def sample_permission_def sample_data_def)

subsection \<open>Submission\<close>

text \<open>
  C7. From a state showing the success view, the only event that leads to a state
  not showing it is the reset button, which is always offered there; the state it
  leaves has the default data (four empty text fields, no files, flag true), no
  errors and no stored message, and, in reachable states, \<open>isSubmitting\<close> is down and
  nothing is in flight.
\<close>

theorem reset_after_success:
  "(isSuccess (app p) \<and> step e p = Some p' \<and> \<not> isSuccess (app p') \<longrightarrow>
      e = Reset \<and> formData (app p') = defaults \<and> errors (app p') = []
      \<and> aiMessage (app p') = [])
   \<and> (isSuccess (app p) \<longrightarrow> step Reset p = Some (p\<lparr>app := resetForm (app p)\<rparr>))
   \<and> (run es start = Some p \<and> isSuccess (app p) \<longrightarrow>
        \<not> isSubmitting (resetForm (app p)) \<and> inFlight p = [])
   \<and> formData (resetForm s) = defaults \<and> errors (resetForm s) = []
   \<and> aiMessage (resetForm s) = [] \<and> \<not> isSuccess (resetForm s)
   \<and> directorName defaults = [] \<and> playwrightName defaults = []
   \<and> directorPhone defaults = [] \<and> playTitle defaults = []
   \<and> scriptFile defaults = None \<and> authorPermissionFile defaults = None
   \<and> isDirectorPlaywright defaults"
proof -
  have a: "e = Reset \<and> formData (app p') = defaults \<and> errors (app p') = []
      \<and> aiMessage (app p') = []"
    if "isSuccess (app p)" and "step e p = Some p'" and "\<not> isSuccess (app p')"
    using that
    by (cases e)
       (auto simp: formShown_def permissionShown_def handleSubmit_resume_def resetForm_def
          split: if_splits settled.splits)
  have b: "isSuccess (app p) \<longrightarrow> step Reset p = Some (p\<lparr>app := resetForm (app p)\<rparr>)"
    by simp
  have c: "\<not> isSubmitting (resetForm (app p)) \<and> inFlight p = []"
    if "run es start = Some p" and "isSuccess (app p)"
    using reachable_in_flight(2,3) [OF that(1)] that(2) by (auto simp: resetForm_def)
  have d: "formData (resetForm s) = defaults \<and> errors (resetForm s) = []
   \<and> aiMessage (resetForm s) = [] \<and> \<not> isSuccess (resetForm s)
   \<and> directorName defaults = [] \<and> playwrightName defaults = []
   \<and> directorPhone defaults = [] \<and> playTitle defaults = []
   \<and> scriptFile defaults = None \<and> authorPermissionFile defaults = None
   \<and> isDirectorPlaywright defaults"
    by (simp add: resetForm_def defaults_def)
  from a b c d show ?thesis by blast
qed

theorem reset_after_success_witness:
  "run (sample_fill @ [Submit, Settle 0 (Fulfilled (ascii ''hi''))]) start = Some sample_success
   \<and> isSuccess (app sample_success)
   \<and> step Reset sample_success = Some start
   \<and> formData (app start) = defaults \<and> errors (app start) = []
   \<and> aiMessage (app start) = [] \<and> \<not> isSuccess (app start) \<and> \<not> isSubmitting (app start)"
proof -
  have s: "isSuccess (app sample_success)"
    by (simp add: sample_success_def)
  have r: "step Reset sample_success = Some start"
    by (simp add: sample_success_def sample_filled_def start_def initial_def resetForm_def)
  have i: "\<not> isSuccess (app start)" "resetForm (app sample_success) = app start"
    by (simp_all add: sample_success_def sample_filled_def start_def initial_def resetForm_def)
  show ?thesis
    using reset_after_success
      [of sample_success Reset start
          "sample_fill @ [Submit, Settle 0 (Fulfilled (ascii ''hi''))]" "app sample_success"]
      run_sample_success s r i
    by simp
qed

text \<open>
  C8. When the awaited calls reject, the continuation of \<open>handleSubmit\<close> logs the error,
  raises the alert with the fixed failure message, lowers \<open>isSubmitting\<close> and leaves
  the form data, the errors and \<open>isSuccess\<close> as they were just before it ran. In a
  reachable state this ends with neither \<open>isSuccess\<close> nor \<open>isSubmitting\<close> raised and
  nothing in flight. The submission itself never changes the form data: after a
  submit, any input events during the wait and the rejection, the form data is what
  the same input events alone produce from the data before the submit; with no input
  event during the wait it is the data before the submit. While a submission is
  suspended, every possible event is an input event or ends the submission.
\<close>

theorem generator_rejection_keeps_data:
  "formData (fst (handleSubmit_resume Rejected s)) = formData s
   \<and> errors (fst (handleSubmit_resume Rejected s)) = errors s
   \<and> isSuccess (fst (handleSubmit_resume Rejected s)) = isSuccess s
   \<and> \<not> isSubmitting (fst (handleSubmit_resume Rejected s))
   \<and> snd (handleSubmit_resume Rejected s) =
       [ConsoleError (ascii ''Submission failed''), Alert msg_alert]
   \<and> (run es start = Some q \<and> step (Settle i Rejected) q = Some q' \<longrightarrow>
        formData (app q') = formData (app q)
        \<and> \<not> isSuccess (app q') \<and> \<not> isSubmitting (app q') \<and> inFlight q' = []
        \<and> effects q' = effects q @ [ConsoleError (ascii ''Submission failed''), Alert msg_alert])
   \<and> (step Submit p = Some p1 \<and> step (Settle j Rejected) p1 = Some p2 \<longrightarrow>
        formData (app p2) = formData (app p))
   \<and> (step Submit p = Some p1 \<and> list_all is_edit mid \<and> run mid p1 = Some w
        \<and> step (Settle k Rejected) w = Some w' \<longrightarrow>
        map_option (\<lambda>x. formData (app x)) (run mid p) = Some (formData (app w')))
   \<and> (run es start = Some q \<and> isSubmitting (app q) \<and> step e q = Some r \<longrightarrow>
        is_edit e \<or> \<not> isSubmitting (app r))"
proof -
  have a: "formData (fst (handleSubmit_resume Rejected s)) = formData s
     \<and> errors (fst (handleSubmit_resume Rejected s)) = errors s
     \<and> isSuccess (fst (handleSubmit_resume Rejected s)) = isSuccess s
     \<and> \<not> isSubmitting (fst (handleSubmit_resume Rejected s))
     \<and> snd (handleSubmit_resume Rejected s) =
       [ConsoleError (ascii ''Submission failed''), Alert msg_alert]"
    by (simp add: handleSubmit_resume_def)
  have settle: "formData (app y') = formData (app y)"
    if "step (Settle n Rejected) y = Some y'" for n y y'
    using that by (auto simp: handleSubmit_resume_def split: if_splits)
  have b: "formData (app q') = formData (app q)
        \<and> \<not> isSuccess (app q') \<and> \<not> isSubmitting (app q') \<and> inFlight q' = []
        \<and> effects q' = effects q @ [ConsoleError (ascii ''Submission failed''), Alert msg_alert]"
    if r: "run es start = Some q" and t: "step (Settle i Rejected) q = Some q'"
  proof -
    have sf: "single_flight q"
      using r by (rule run_single_flight_start)
    have "\<not> isSuccess (app q)" "\<not> isSubmitting (app q')" "inFlight q' = []"
      using settle_flags [OF sf t] by simp_all
    moreover have "isSuccess (app q') = isSuccess (app q)"
      "effects q' = effects q @ [ConsoleError (ascii ''Submission failed''), Alert msg_alert]"
      using t by (auto simp: handleSubmit_resume_def split: if_splits)
    ultimately show ?thesis using settle [OF t] by simp
  qed
  have c: "formData (app p2) = formData (app p)"
    if "step Submit p = Some p1" and "step (Settle j Rejected) p1 = Some p2"
    using submit_keeps [OF that(1)] settle [OF that(2)] by simp
  have d: "map_option (\<lambda>x. formData (app x)) (run mid p) = Some (formData (app w'))"
    if "step Submit p = Some p1" and "list_all is_edit mid" and "run mid p1 = Some w"
      and "step (Settle k Rejected) w = Some w'"
    using edits_run_formData [OF that(2) _ _ that(3), of p] submit_keeps [OF that(1)]
      settle [OF that(4)]
    by simp
  have e: "is_edit e \<or> \<not> isSubmitting (app r)"
    if "run es start = Some q" and "isSubmitting (app q)" and "step e q = Some r"
    using waiting_events [OF run_single_flight_start [OF that(1)] that(2) that(3)] .
  from a b c d e show ?thesis by blast
qed

theorem generator_rejection_keeps_data_witness:
  "run (sample_fill @ [Submit]) start = Some sample_submitting
   \<and> step Submit (start\<lparr>app := sample_filled\<rparr>) = Some sample_submitting
   \<and> step (Settle 0 Rejected) sample_submitting = Some sample_rejected
   \<and> formData (app sample_rejected) = sample_data
   \<and> \<not> isSuccess (app sample_rejected) \<and> \<not> isSubmitting (app sample_rejected)
   \<and> effects sample_rejected = [ConsoleError (ascii ''Submission failed''), Alert msg_alert]
   \<and> run [InputChange TDirectorName (ascii ''Z'')] sample_submitting = Some sample_edited
   \<and> step (Settle 0 Rejected) sample_edited = Some sample_edited_rejected
   \<and> run [InputChange TDirectorName (ascii ''Z'')] (start\<lparr>app := sample_filled\<rparr>) =
       Some (start\<lparr>app := sample_filled\<lparr>formData := sample_data\<lparr>directorName := ascii ''Z''\<rparr>\<rparr>\<rparr>)
   \<and> formData (app sample_edited_rejected) = sample_data\<lparr>directorName := ascii ''Z''\<rparr>
   \<and> isSubmitting (app sample_submitting) \<and> isSubmitting (app sample_edited)"
proof -
  have f: "formData (app (start\<lparr>app := sample_filled\<rparr>)) = sample_data"
    "effects sample_submitting = []" "formData (app sample_submitting) = sample_data"
    "isSubmitting (app sample_submitting)" "isSubmitting (app sample_edited)"
    by (simp_all add: sample_filled_def sample_submitting_def sample_edited_def start_def)
  have m: "run [InputChange TDirectorName (ascii ''Z'')] sample_submitting = Some sample_edited"
    using step_sample_edit by simp
  show ?thesis
    using generator_rejection_keeps_data
      [of sample_filled "sample_fill @ [Submit]" sample_submitting 0 sample_rejected
          "start\<lparr>app := sample_filled\<rparr>" sample_submitting 0 sample_rejected
          "[InputChange TDirectorName (ascii ''Z'')]" sample_edited 0 sample_edited_rejected
          "InputChange TDirectorName (ascii ''Z'')" sample_edited]
      run_sample_submitting step_sample_submit step_sample_rejected step_sample_edit
      step_sample_edited_rejected run_sample_edit_alone m f
    by simp
qed

text \<open>
  The form data after a rejected submission need not be the data before the submit: the
  inputs stay enabled during the wait. Here the director's name is \<open>B\<close> at the submit,
  is changed to \<open>Z\<close> while the submission is suspended, and is \<open>Z\<close> after the rejection.
\<close>

theorem generator_rejection_pre_submission_counterexample:
  "run sample_fill start = Some (start\<lparr>app := sample_filled\<rparr>)
   \<and> step Submit (start\<lparr>app := sample_filled\<rparr>) = Some sample_submitting
   \<and> step (InputChange TDirectorName (ascii ''Z'')) sample_submitting = Some sample_edited
   \<and> step (Settle 0 Rejected) sample_edited = Some sample_edited_rejected
   \<and> directorName (formData (app (start\<lparr>app := sample_filled\<rparr>))) = ascii ''B''
   \<and> directorName (formData (app sample_edited_rejected)) = ascii ''Z''
   \<and> directorName (formData (app sample_edited_rejected)) \<noteq>
       directorName (formData (app (start\<lparr>app := sample_filled\<rparr>)))"
proof -
  have "run sample_fill start = Some (start\<lparr>app := sample_filled\<rparr>)"
    by (simp add: sample_defs handler_defs)
  moreover have "directorName (formData (app (start\<lparr>app := sample_filled\<rparr>))) = ascii ''B''"
    "directorName (formData (app sample_edited_rejected)) = ascii ''Z''"
    by (simp_all add: sample_filled_def sample_data_def sample_edited_rejected_def)
  moreover have "ascii ''Z'' \<noteq> ascii ''B''"
    by (simp add: ascii_def)
  ultimately show ?thesis
    using step_sample_submit step_sample_edit step_sample_edited_rejected by simp
qed

text \<open>
  C9. In every reachable state at most one submission is suspended, and one is
  suspended exactly when \<open>isSubmitting\<close> is raised; the submit button is disabled
  exactly then, so a submit event is not possible. When the suspended submission
  settles, either way, \<open>isSubmitting\<close> is lowered and nothing is left in flight.
\<close>

theorem single_submission_in_flight:
  "(run es start = Some p \<longrightarrow>
      length (inFlight p) \<le> 1
      \<and> (inFlight p \<noteq> []) = isSubmitting (app p)
      \<and> submitDisabled (app p) = isSubmitting (app p)
      \<and> (isSubmitting (app p) \<longrightarrow> step Submit p = None)
      \<and> (step (Settle i r) p = Some p' \<longrightarrow> \<not> isSubmitting (app p') \<and> inFlight p' = []))
   \<and> \<not> isSubmitting (fst (handleSubmit_resume r s))"
proof -
  have "\<not> isSubmitting (fst (handleSubmit_resume r s))"
    by (simp add: handleSubmit_resume_def split: settled.splits)
  moreover have "isSubmitting (app p) \<longrightarrow> step Submit p = None"
    by (simp add: submitDisabled_def)
  moreover have "submitDisabled (app p) = isSubmitting (app p)"
    by (simp add: submitDisabled_def)
  ultimately show ?thesis
    using reachable_in_flight(1,2) [of es p] settle_flags(1,2) [of p i r p']
      run_single_flight_start [of es p]
    by blast
qed

theorem single_submission_in_flight_witness:
  "run (sample_fill @ [Submit]) start = Some sample_submitting
   \<and> length (inFlight sample_submitting) \<le> 1
   \<and> isSubmitting (app sample_submitting)
   \<and> step Submit sample_submitting = None
   \<and> step (Settle 0 Rejected) sample_submitting = Some sample_rejected
   \<and> \<not> isSubmitting (app sample_rejected) \<and> inFlight sample_rejected = []"
proof -
  have s: "isSubmitting (app sample_submitting)"
    by (simp add: sample_submitting_def)
  show ?thesis
    using single_submission_in_flight
      [of "sample_fill @ [Submit]" sample_submitting 0 Rejected sample_rejected]
      run_sample_submitting step_sample_rejected s
    by simp
qed

end
